theory Spec2Isabelle
  imports Main
begin

section \<open>The user routes of the Medium-blog backend: signup and signin\<close>

text \<open>
  Source: \<^verbatim>\<open>src/13/Medium-blog/backend/src/routes/user.ts\<close>. The two handlers of
  \<^verbatim>\<open>userRouter\<close> are embedded as functions from the outcome of \<^verbatim>\<open>c.req.json()\<close>
  and the state of the Account Store to the response and the new state of the store.
  What the handlers import (the two schemas of package \<^verbatim>\<open>medium-vlog-project\<close>, the
  function \<^verbatim>\<open>sign\<close> of \<^verbatim>\<open>hono/jwt\<close>) is a parameter; the Prisma client is modelled from
  the specification.
\<close>

subsection \<open>JavaScript values\<close>

text \<open>
  A parsed JSON value. Numbers are kept as integers: the handlers only test a number for
  being zero. The value \<^verbatim>\<open>undefined\<close> is \<open>None\<close> of \<open>json option\<close>.
\<close>

datatype json =
    JNull
  | JBool bool
  | JNum int
  | JStr string
  | JArr "json list"
  | JObj "(string \<times> json) list"

text \<open>A thrown exception: the name of its class and its message.\<close>

datatype exn = Exn string string

text \<open>
  \<^verbatim>\<open>body.email\<close>, \<^verbatim>\<open>body.password\<close>: reading a property of \<^verbatim>\<open>null\<close> throws a TypeError; an
  object gives the value stored under the key or \<^verbatim>\<open>undefined\<close>; a boolean, a number,
  a string or an array has none of the three keys the handlers read.
\<close>

fun get_prop :: "json \<Rightarrow> string \<Rightarrow> exn + json option" where
  "get_prop JNull k = Inl (Exn ''TypeError'' (''Cannot read properties of null (reading '' @ k @ '')''))"
| "get_prop (JObj kvs) k = Inr (map_of kvs k)"
| "get_prop v k = Inr None"

text \<open>\<^verbatim>\<open>body?.name\<close>: optional chaining gives \<^verbatim>\<open>undefined\<close> on \<^verbatim>\<open>null\<close> and never throws.\<close>

fun opt_prop :: "json \<Rightarrow> string \<Rightarrow> json option" where
  "opt_prop (JObj kvs) k = map_of kvs k"
| "opt_prop v k = None"

text \<open>JavaScript truthiness, as \<^verbatim>\<open>!x\<close> tests it.\<close>

fun truthy :: "json option \<Rightarrow> bool" where
  "truthy None = False"
| "truthy (Some JNull) = False"
| "truthy (Some (JBool b)) = b"
| "truthy (Some (JNum n)) = (n \<noteq> 0)"
| "truthy (Some (JStr s)) = (s \<noteq> [])"
| "truthy (Some (JArr xs)) = True"
| "truthy (Some (JObj kvs)) = True"

subsection \<open>The Hono context and the response\<close>

record response =
  status :: nat
  body :: json

text \<open>The context \<^verbatim>\<open>c\<close> holds the status of the response to come, 200 until set.\<close>

record ctx =
  ctx_status :: nat

definition new_ctx :: ctx where
  "new_ctx = \<lparr>ctx_status = 200\<rparr>"

definition c_status :: "nat \<Rightarrow> ctx \<Rightarrow> ctx" where
  "c_status n c = c\<lparr>ctx_status := n\<rparr>"

definition c_json :: "ctx \<Rightarrow> json \<Rightarrow> response" where
  "c_json c v = \<lparr>status = ctx_status c, body = v\<rparr>"

subsection \<open>The Account Store\<close>

record user =
  user_id :: nat
  user_name :: "string option"
  user_email :: string
  user_password :: string

text \<open>The calls a handler makes on the store, with their arguments, in order.\<close>

datatype store_call =
    Create "json option" "json option" "json option"
  | FindUnique "json option" "json option"

text \<open>
  The store behind \<^verbatim>\<open>DATABASE_URL\<close>: the accounts, the identifier the next account
  gets, the exception every query throws while the store cannot be reached (\<open>None\<close>
  when it can), and the calls received so far.
\<close>

record store =
  users :: "user list"
  next_id :: nat
  fault :: "exn option"
  calls :: "store_call list"

text \<open>The value given for the optional column \<^verbatim>\<open>name\<close>: absent, null or a string.\<close>

fun name_arg :: "json option \<Rightarrow> string option option" where
  "name_arg None = Some None"
| "name_arg (Some JNull) = Some None"
| "name_arg (Some (JStr s)) = Some (Some s)"
| "name_arg (Some v) = None"

definition validation_error :: exn where
  "validation_error = Exn ''PrismaClientValidationError'' ''Invalid invocation: argument of the wrong type''"

definition unique_violation :: exn where
  "unique_violation = Exn ''PrismaClientKnownRequestError'' ''Unique constraint failed on the fields: (email)''"

text \<open>
  Modelled from the spec: \<^verbatim>\<open>prisma.user.create\<close> (the Prisma client and the database
  schema are not under src/). Section 3: the store assigns the \<^verbatim>\<open>id\<close>; \<^verbatim>\<open>name\<close> is an
  optional string, \<^verbatim>\<open>email\<close> and \<^verbatim>\<open>password\<close> are required strings; no two accounts
  share an \<^verbatim>\<open>email\<close>, which the store enforces. The call throws on arguments of the
  wrong type, when the store cannot be reached and on an \<^verbatim>\<open>email\<close> already stored;
  otherwise it appends the account and returns it.
\<close>

definition prisma_user_create ::
  "json option \<Rightarrow> json option \<Rightarrow> json option \<Rightarrow> store \<Rightarrow> (exn + user) \<times> store" where
  "prisma_user_create nm em pw st =
     (let st1 = st\<lparr>calls := calls st @ [Create nm em pw]\<rparr> in
      case (name_arg nm, em, pw) of
        (Some n, Some (JStr e), Some (JStr p)) \<Rightarrow>
          (case fault st of
             Some x \<Rightarrow> (Inl x, st1)
           | None \<Rightarrow>
               (case find (\<lambda>u. user_email u = e) (users st) of
                  Some u \<Rightarrow> (Inl unique_violation, st1)
                | None \<Rightarrow>
                    (let u = \<lparr>user_id = next_id st, user_name = n,
                               user_email = e, user_password = p\<rparr>
                     in (Inr u, st1\<lparr>users := users st @ [u], next_id := Suc (next_id st)\<rparr>))))
      | _ \<Rightarrow> (Inl validation_error, st1))"

text \<open>
  Modelled from the spec: \<^verbatim>\<open>prisma.user.findUnique\<close> with
  \<^verbatim>\<open>where: {email, password}\<close>. Section 4.3, step 2: the account whose \<^verbatim>\<open>email\<close> and
  \<^verbatim>\<open>password\<close> both equal the supplied strings, or \<^verbatim>\<open>null\<close> (here \<open>None\<close>) when there
  is none. The accounts are never changed.
\<close>

definition prisma_user_findUnique ::
  "json option \<Rightarrow> json option \<Rightarrow> store \<Rightarrow> (exn + user option) \<times> store" where
  "prisma_user_findUnique em pw st =
     (let st1 = st\<lparr>calls := calls st @ [FindUnique em pw]\<rparr> in
      case (em, pw) of
        (Some (JStr e), Some (JStr p)) \<Rightarrow>
          (case fault st of
             Some x \<Rightarrow> (Inl x, st1)
           | None \<Rightarrow> (Inr (find (\<lambda>u. user_email u = e \<and> user_password u = p) (users st)), st1))
      | _ \<Rightarrow> (Inl validation_error, st1))"

subsection \<open>What the handlers import, and the bindings of the deployment\<close>

text \<open>
  \<open>signupInput\<close> and \<open>signinInput\<close> are the \<^verbatim>\<open>success\<close> field of \<^verbatim>\<open>safeParse\<close> of the
  two schemas, which never throws. \<open>sign\<close> is \<^verbatim>\<open>sign({ id }, secret)\<close> of hono/jwt: it
  throws or returns the token.
\<close>

record lib =
  signupInput :: "json \<Rightarrow> bool"
  signinInput :: "json \<Rightarrow> bool"
  sign :: "nat \<Rightarrow> string option \<Rightarrow> exn + string"

text \<open>\<^verbatim>\<open>c.env\<close>: the signing secret, \<open>None\<close> when the binding is not configured.\<close>

record bindings =
  JWT_SECRET :: "string option"

subsection \<open>signup\<close>

text \<open>
  The body of the \<^verbatim>\<open>try\<close> block of \<^verbatim>\<open>userRouter.post("/signup")\<close>, lines 21 to 45: it
  returns a response or throws, and the store is as the calls made so far left it.
  \<^verbatim>\<open>!body.email || !body.password\<close> reads \<^verbatim>\<open>body.password\<close> only when \<^verbatim>\<open>body.email\<close> is
  truthy.
\<close>

definition signup_try ::
  "lib \<Rightarrow> bindings \<Rightarrow> ctx \<Rightarrow> exn + json \<Rightarrow> store \<Rightarrow> (exn + response) \<times> store" where
  "signup_try L env c req st =
     (case req of
        Inl e \<Rightarrow> (Inl e, st)
      | Inr b \<Rightarrow>
          if \<not> signupInput L b then (Inr (c_json (c_status 411 c) (JStr ''Invalid input'')), st)
          else
            (case get_prop b ''email'' of
               Inl e \<Rightarrow> (Inl e, st)
             | Inr em \<Rightarrow>
                 if \<not> truthy em then (Inr (c_json c (JStr ''Invalid email or password'')), st)
                 else
                   (case get_prop b ''password'' of
                      Inl e \<Rightarrow> (Inl e, st)
                    | Inr pw \<Rightarrow>
                        if \<not> truthy pw
                        then (Inr (c_json c (JStr ''Invalid email or password'')), st)
                        else
                          (case prisma_user_create (opt_prop b ''name'') em pw st of
                             (Inl e, st') \<Rightarrow> (Inl e, st')
                           | (Inr u, st') \<Rightarrow>
                               (case sign L (user_id u) (JWT_SECRET env) of
                                  Inl e \<Rightarrow> (Inl e, st')
                                | Inr token \<Rightarrow>
                                    if token = []
                                    then (Inr (c_json (c_status 500 c)
                                                 (JStr ''Failed to create token'')), st')
                                    else (Inr (c_json c
                                                 (JObj [(''mesaage'', JStr ''User created Successfully''),
                                                        (''token'', JStr token)])), st'))))))"

text \<open>
  The handler: the \<^verbatim>\<open>try\<close> block and its \<^verbatim>\<open>catch\<close>, lines 46 to 49. The Prisma client
  built before the \<^verbatim>\<open>try\<close> connects at its first query, so building it does nothing
  here.
\<close>

definition signup :: "lib \<Rightarrow> bindings \<Rightarrow> exn + json \<Rightarrow> store \<Rightarrow> response \<times> store" where
  "signup L env req st =
     (let c = new_ctx in
      case signup_try L env c req st of
        (Inr r, st') \<Rightarrow> (r, st')
      | (Inl error, st') \<Rightarrow> (c_json (c_status 500 c) (JStr ''Failed to create user''), st'))"

subsection \<open>signin\<close>

text \<open>The body of the \<^verbatim>\<open>try\<close> block of \<^verbatim>\<open>userRouter.post("/signin")\<close>, lines 59 to 78.\<close>

definition signin_try ::
  "lib \<Rightarrow> bindings \<Rightarrow> ctx \<Rightarrow> exn + json \<Rightarrow> store \<Rightarrow> (exn + response) \<times> store" where
  "signin_try L env c req st =
     (case req of
        Inl e \<Rightarrow> (Inl e, st)
      | Inr b \<Rightarrow>
          if \<not> signinInput L b then (Inr (c_json (c_status 411 c) (JStr ''Invalid input'')), st)
          else
            (case get_prop b ''email'' of
               Inl e \<Rightarrow> (Inl e, st)
             | Inr em \<Rightarrow>
                 (case get_prop b ''password'' of
                    Inl e \<Rightarrow> (Inl e, st)
                  | Inr pw \<Rightarrow>
                      (case prisma_user_findUnique em pw st of
                         (Inl e, st') \<Rightarrow> (Inl e, st')
                       | (Inr None, st') \<Rightarrow>
                           (Inr (c_json (c_status 404 c) (JStr ''User not found'')), st')
                       | (Inr (Some u), st') \<Rightarrow>
                           (case sign L (user_id u) (JWT_SECRET env) of
                              Inl e \<Rightarrow> (Inl e, st')
                            | Inr token \<Rightarrow>
                                (Inr (c_json c
                                        (JObj [(''message'', JStr ''User logged in successfully''),
                                               (''token'', JStr token)])), st'))))))"

text \<open>The handler: the \<^verbatim>\<open>try\<close> block and its \<^verbatim>\<open>catch\<close>, lines 79 to 82.\<close>

definition signin :: "lib \<Rightarrow> bindings \<Rightarrow> exn + json \<Rightarrow> store \<Rightarrow> response \<times> store" where
  "signin L env req st =
     (let c = new_ctx in
      case signin_try L env c req st of
        (Inr r, st') \<Rightarrow> (r, st')
      | (Inl error, st') \<Rightarrow> (c_json (c_status 500 c) (JStr ''Failed to login''), st'))"

subsection \<open>Concrete collaborators and requests\<close>

text \<open>
  Modelled from the spec: the format check of the schemas on \<^verbatim>\<open>email\<close> (package
  \<^verbatim>\<open>medium-vlog-project\<close> is not under src/). Section 4.1 asks for a well-formed email:
  here some text, an \<^verbatim>\<open>@\<close> and some text.
\<close>

definition well_formed_email :: "string \<Rightarrow> bool" where
  "well_formed_email e =
     (takeWhile (\<lambda>c. c \<noteq> CHR ''@'') e \<noteq> [] \<and> 1 < length (dropWhile (\<lambda>c. c \<noteq> CHR ''@'') e))"

text \<open>
  Modelled from the spec: the signup schema of package \<^verbatim>\<open>medium-vlog-project\<close>, which
  is not under src/. Section 4.1: it requires at minimum a present, well-formed
  \<^verbatim>\<open>email\<close> and a present \<^verbatim>\<open>password\<close>; \<^verbatim>\<open>name\<close> is optional. Both required fields are
  strings, the password of six characters at least, so that the presence check that
  follows the schema in signup is redundant, as section 4.2 says it is.
\<close>

definition signup_schema :: "json \<Rightarrow> bool" where
  "signup_schema b =
     (case b of
        JObj kvs \<Rightarrow>
          (case (map_of kvs ''email'', map_of kvs ''password'') of
             (Some (JStr e), Some (JStr p)) \<Rightarrow>
               well_formed_email e \<and> 6 \<le> length p
               \<and> (case map_of kvs ''name'' of
                     None \<Rightarrow> True
                   | Some (JStr n) \<Rightarrow> True
                   | Some v \<Rightarrow> False)
           | _ \<Rightarrow> False)
      | _ \<Rightarrow> False)"

text \<open>
  Modelled from the spec: the signin schema of the same package. Section 4.1: it
  requires the fields \<^verbatim>\<open>email\<close> and \<^verbatim>\<open>password\<close> to be present, format-checked as in
  signup.
\<close>

definition signin_schema :: "json \<Rightarrow> bool" where
  "signin_schema b =
     (case b of
        JObj kvs \<Rightarrow>
          (case (map_of kvs ''email'', map_of kvs ''password'') of
             (Some (JStr e), Some (JStr p)) \<Rightarrow> well_formed_email e \<and> 6 \<le> length p
           | _ \<Rightarrow> False)
      | _ \<Rightarrow> False)"

text \<open>
  A signer and its decoder to run the handlers on: the token is the secret, a dot and
  as many digits 1 as the identifier counts, so it is never empty. Signing throws
  without a secret.
\<close>

definition test_sign :: "nat \<Rightarrow> string option \<Rightarrow> exn + string" where
  "test_sign i s =
     (case s of
        None \<Rightarrow> Inl (Exn ''JwtTokenInvalid'' ''secret is undefined'')
      | Some k \<Rightarrow> Inr (k @ ''.'' @ replicate i (CHR ''1'')))"

definition test_verify :: "string \<Rightarrow> string option \<Rightarrow> nat option" where
  "test_verify t s =
     (case s of
        None \<Rightarrow> None
      | Some k \<Rightarrow>
          if take (Suc (length k)) t = k @ ''.'' then Some (length t - Suc (length k)) else None)"

definition test_lib :: lib where
  "test_lib = \<lparr>signupInput = signup_schema, signinInput = signin_schema, sign = test_sign\<rparr>"

definition test_env :: bindings where
  "test_env = \<lparr>JWT_SECRET = Some ''k''\<rparr>"

definition no_secret_env :: bindings where
  "no_secret_env = \<lparr>JWT_SECRET = None\<rparr>"

definition empty_store :: store where
  "empty_store = \<lparr>users = [], next_id = 1, fault = None, calls = []\<rparr>"

definition alice :: user where
  "alice = \<lparr>user_id = 1, user_name = None, user_email = ''a@x.com'', user_password = ''hunter22''\<rparr>"

definition alice_store :: store where
  "alice_store = \<lparr>users = [alice], next_id = 2, fault = None, calls = []\<rparr>"

definition alice_body :: json where
  "alice_body = JObj [(''email'', JStr ''a@x.com''), (''password'', JStr ''hunter22'')]"

definition wrong_password_body :: json where
  "wrong_password_body = JObj [(''email'', JStr ''a@x.com''), (''password'', JStr ''wrong-pw'')]"

definition unknown_email_body :: json where
  "unknown_email_body = JObj [(''email'', JStr ''b@x.com''), (''password'', JStr ''hunter22'')]"


definition no_password_body :: json where
  "no_password_body = JObj [(''email'', JStr [])]"

definition syntax_error :: exn where
  "syntax_error = Exn ''SyntaxError'' ''Unexpected end of JSON input''"

definition unreachable :: exn where
  "unreachable = Exn ''PrismaClientInitializationError'' ''Can not reach database server''"

definition down_store :: store where
  "down_store = alice_store\<lparr>fault := Some unreachable\<rparr>"

text \<open>The store after the first signup of \<open>alice_body\<close> on the empty store.\<close>

definition after_alice :: store where
  "after_alice =
     \<lparr>users = [alice], next_id = 2, fault = None,
      calls = [Create None (Some (JStr ''a@x.com'')) (Some (JStr ''hunter22''))]\<rparr>"

subsection \<open>Shapes of a response body\<close>

text \<open>A body that is a plain JSON string with some text, as \<^verbatim>\<open>c.json("...")\<close> sends.\<close>

definition plain_message :: "json \<Rightarrow> bool" where
  "plain_message v = (case v of JStr m \<Rightarrow> m \<noteq> [] | _ \<Rightarrow> False)"

section \<open>Properties\<close>

subsection \<open>What the schemas accept\<close>

text \<open>
  A body either schema accepts has a well-formed email and a password of six
  characters at least, so both fields are truthy.
\<close>

lemma well_formed_email_not_empty: "well_formed_email e \<Longrightarrow> e \<noteq> []"
  by (auto simp: well_formed_email_def)

lemma signin_schema_fields:
  assumes "signin_schema b"
  shows "\<exists>e p. opt_prop b ''email'' = Some (JStr e) \<and> well_formed_email e
       \<and> opt_prop b ''password'' = Some (JStr p) \<and> 6 \<le> length p"
proof -
  from assms obtain kvs where b: "b = JObj kvs"
    by (cases b) (simp_all add: signin_schema_def)
  with assms obtain v where v: "map_of kvs ''email'' = Some v"
    by (cases "map_of kvs ''email''") (simp_all add: signin_schema_def)
  with assms b obtain e where e: "v = JStr e"
    by (cases v) (simp_all add: signin_schema_def)
  from assms b v e obtain w where w: "map_of kvs ''password'' = Some w"
    by (cases "map_of kvs ''password''") (simp_all add: signin_schema_def)
  with assms b v e obtain p where p: "w = JStr p"
    by (cases w) (simp_all add: signin_schema_def)
  from assms b v e w p show ?thesis
    by (simp add: signin_schema_def)
qed

lemma signup_schema_fields:
  assumes "signup_schema b"
  shows "\<exists>e p. opt_prop b ''email'' = Some (JStr e) \<and> well_formed_email e
       \<and> opt_prop b ''password'' = Some (JStr p) \<and> 6 \<le> length p"
proof -
  from assms obtain kvs where b: "b = JObj kvs"
    by (cases b) (simp_all add: signup_schema_def)
  with assms obtain v where v: "map_of kvs ''email'' = Some v"
    by (cases "map_of kvs ''email''") (simp_all add: signup_schema_def)
  with assms b obtain e where e: "v = JStr e"
    by (cases v) (simp_all add: signup_schema_def)
  from assms b v e obtain w where w: "map_of kvs ''password'' = Some w"
    by (cases "map_of kvs ''password''") (simp_all add: signup_schema_def)
  with assms b v e obtain p where p: "w = JStr p"
    by (cases w) (simp_all add: signup_schema_def)
  from assms b v e w p show ?thesis
    by (simp add: signup_schema_def)
qed


lemma signin_schema_truthy:
  assumes "signin_schema b"
  shows "truthy (opt_prop b ''email'') \<and> truthy (opt_prop b ''password'')"
proof -
  from signin_schema_fields [OF assms] obtain e p
    where "opt_prop b ''email'' = Some (JStr e)" and "well_formed_email e"
      and "opt_prop b ''password'' = Some (JStr p)" and "6 \<le> length p"
    by blast
  moreover from this have "e \<noteq> []" and "p \<noteq> []"
    by (auto dest: well_formed_email_not_empty)
  ultimately show ?thesis by simp
qed

subsection \<open>Lookups in the list of accounts\<close>

lemma find_of_filter_single: "filter P xs = [u] \<Longrightarrow> find P xs = Some u"
  by (induction xs) (auto split: if_splits)

lemma find_of_filter_none: "filter P xs = [] \<Longrightarrow> find P xs = None"
  by (induction xs) (auto split: if_splits)

subsection \<open>signin: a match or not found\<close>

text \<open>
  C1. A signin request whose body passes the signin schema and supplies the strings
  \<open>e\<close> and \<open>p\<close> as email and password, on a store that can be reached: when exactly one
  stored account \<open>u\<close> has both the email \<open>e\<close> and the password \<open>p\<close>, and signing the
  identifier of \<open>u\<close> gives the token \<open>t\<close>, the response is the success outcome (status
  200) carrying \<open>t\<close>; when no account has both, the response is status 404 with the
  text "User not found". That response is one fixed value: it depends neither on \<open>e\<close>
  nor on \<open>p\<close> nor on the stored accounts, so an unknown email and a wrong password
  cannot be told apart.
\<close>

theorem signin_match_or_not_found:
  assumes "signinInput L b"
    and "get_prop b ''email'' = Inr (Some (JStr e))"
    and "get_prop b ''password'' = Inr (Some (JStr p))"
    and "fault st = None"
  shows "(filter (\<lambda>a. user_email a = e \<and> user_password a = p) (users st) = [u]
            \<and> sign L (user_id u) (JWT_SECRET env) = Inr t
          \<longrightarrow> fst (signin L env (Inr b) st) =
                \<lparr>status = 200,
                 body = JObj [(''message'', JStr ''User logged in successfully''),
                              (''token'', JStr t)]\<rparr>)
       \<and> (filter (\<lambda>a. user_email a = e \<and> user_password a = p) (users st) = []
          \<longrightarrow> fst (signin L env (Inr b) st) = \<lparr>status = 404, body = JStr ''User not found''\<rparr>)"
  using assms
  by (auto simp: signin_def signin_try_def prisma_user_findUnique_def new_ctx_def c_status_def
      c_json_def Let_def dest!: find_of_filter_single find_of_filter_none)

text \<open>
  On the store holding one account: the right credentials, a wrong password and an
  unknown email.
\<close>

theorem signin_match_or_not_found_witness:
  "fst (signin test_lib test_env (Inr alice_body) alice_store) =
     \<lparr>status = 200,
      body = JObj [(''message'', JStr ''User logged in successfully''), (''token'', JStr ''k.1'')]\<rparr>
   \<and> fst (signin test_lib test_env (Inr wrong_password_body) alice_store) =
     \<lparr>status = 404, body = JStr ''User not found''\<rparr>
   \<and> fst (signin test_lib test_env (Inr unknown_email_body) alice_store) =
     \<lparr>status = 404, body = JStr ''User not found''\<rparr>"
  using signin_match_or_not_found
      [of test_lib alice_body "''a@x.com''" "''hunter22''" alice_store alice test_env "''k.1''"]
    signin_match_or_not_found
      [of test_lib wrong_password_body "''a@x.com''" "''wrong-pw''" alice_store alice test_env "''k.1''"]
    signin_match_or_not_found
      [of test_lib unknown_email_body "''b@x.com''" "''hunter22''" alice_store alice test_env "''k.1''"]
  by (simp add: signup_schema_def signin_schema_def well_formed_email_def test_sign_def test_lib_def test_env_def alice_def alice_store_def
      alice_body_def wrong_password_body_def unknown_email_body_def)

subsection \<open>A body the schema rejects\<close>

text \<open>A body without the field \<^verbatim>\<open>email\<close> or \<^verbatim>\<open>password\<close> fails both schemas.\<close>

lemma signup_schema_rejects_missing:
  "opt_prop b ''email'' = None \<or> opt_prop b ''password'' = None \<Longrightarrow> signup_schema b = False"
  using signup_schema_fields [of b] by auto

lemma signin_schema_rejects_missing:
  "opt_prop b ''email'' = None \<or> opt_prop b ''password'' = None \<Longrightarrow> signin_schema b = False"
  using signin_schema_fields [of b] by auto

text \<open>
  C2. When the body of a signup request fails the signup schema, or the body of a
  signin request fails the signin schema, the response is status 411 with the text
  "Invalid input" and the store is returned as it was: its accounts are the same and
  its list of received calls has not grown, so neither \<^verbatim>\<open>create\<close> nor \<^verbatim>\<open>findUnique\<close>
  was called. With the schemas of the spec this is so for every body that lacks the
  field \<^verbatim>\<open>email\<close> or the field \<^verbatim>\<open>password\<close> (the last two conjuncts).
\<close>

theorem invalid_input_never_reaches_store:
  "(\<not> signupInput L b \<longrightarrow>
      signup L env (Inr b) st = (\<lparr>status = 411, body = JStr ''Invalid input''\<rparr>, st))
   \<and> (\<not> signinInput L b \<longrightarrow>
      signin L env (Inr b) st = (\<lparr>status = 411, body = JStr ''Invalid input''\<rparr>, st))
   \<and> (signupInput L = signup_schema
        \<and> (opt_prop b ''email'' = None \<or> opt_prop b ''password'' = None) \<longrightarrow>
      signup L env (Inr b) st = (\<lparr>status = 411, body = JStr ''Invalid input''\<rparr>, st))
   \<and> (signinInput L = signin_schema
        \<and> (opt_prop b ''email'' = None \<or> opt_prop b ''password'' = None) \<longrightarrow>
      signin L env (Inr b) st = (\<lparr>status = 411, body = JStr ''Invalid input''\<rparr>, st))"
proof -
  have up: "\<not> signupInput L b \<Longrightarrow>
      signup L env (Inr b) st = (\<lparr>status = 411, body = JStr ''Invalid input''\<rparr>, st)"
    by (simp add: signup_def signup_try_def new_ctx_def c_status_def c_json_def)
  have inn: "\<not> signinInput L b \<Longrightarrow>
      signin L env (Inr b) st = (\<lparr>status = 411, body = JStr ''Invalid input''\<rparr>, st)"
    by (simp add: signin_def signin_try_def new_ctx_def c_status_def c_json_def)
  show ?thesis
    using up inn signup_schema_rejects_missing [of b] signin_schema_rejects_missing [of b]
    by auto
qed

text \<open>The body \<^verbatim>\<open>{email: ""}\<close>, which has no password, on both routes.\<close>

theorem invalid_input_never_reaches_store_witness:
  "\<not> signupInput test_lib no_password_body \<and> \<not> signinInput test_lib no_password_body
   \<and> opt_prop no_password_body ''password'' = None
   \<and> signup test_lib test_env (Inr no_password_body) alice_store =
       (\<lparr>status = 411, body = JStr ''Invalid input''\<rparr>, alice_store)
   \<and> signin test_lib test_env (Inr no_password_body) alice_store =
       (\<lparr>status = 411, body = JStr ''Invalid input''\<rparr>, alice_store)
   \<and> calls (snd (signup test_lib test_env (Inr no_password_body) alice_store)) = []
   \<and> calls (snd (signin test_lib test_env (Inr no_password_body) alice_store)) = []"
  using invalid_input_never_reaches_store [of test_lib no_password_body test_env alice_store]
  by (simp add: signup_schema_def signin_schema_def well_formed_email_def test_lib_def no_password_body_def alice_store_def)

subsection \<open>What the store calls do\<close>

lemma create_duplicate_throws:
  "find (\<lambda>a. user_email a = e) (users st) = Some a0 \<Longrightarrow>
   \<exists>x. prisma_user_create nm (Some (JStr e)) pw st =
     (Inl x, st\<lparr>calls := calls st @ [Create nm (Some (JStr e)) pw]\<rparr>)"
  by (auto simp: prisma_user_create_def Let_def split: option.splits json.splits)

lemma create_appends:
  "prisma_user_create nm em pw st = (Inr u, st') \<Longrightarrow> users st' = users st @ [u]"
  by (auto simp: prisma_user_create_def Let_def split: option.splits json.splits)

lemma create_alice:
  "prisma_user_create (opt_prop alice_body ''name'') (Some (JStr ''a@x.com''))
     (Some (JStr ''hunter22'')) empty_store = (Inr alice, after_alice)"
  by (simp add: prisma_user_create_def empty_store_def alice_def alice_body_def
      after_alice_def Let_def)

subsection \<open>signup on an email already stored\<close>

text \<open>
  C3, as stated, fails: the response to a signup with a stored email is the response
  to a request whose body cannot be parsed, and the response to a signup whose token
  cannot be signed. The caller cannot tell the duplicate from these failures.
\<close>

theorem duplicate_email_not_distinguishable:
  "fst (signup test_lib test_env (Inr alice_body) alice_store) =
     \<lparr>status = 500, body = JStr ''Failed to create user''\<rparr>
   \<and> fst (signup test_lib test_env (Inl syntax_error) alice_store) =
     \<lparr>status = 500, body = JStr ''Failed to create user''\<rparr>
   \<and> fst (signup test_lib no_secret_env (Inr unknown_email_body) alice_store) =
     \<lparr>status = 500, body = JStr ''Failed to create user''\<rparr>"
  by (simp add: signup_def signup_try_def new_ctx_def c_status_def c_json_def
      prisma_user_create_def signup_schema_def signin_schema_def well_formed_email_def test_sign_def test_lib_def test_env_def
      no_secret_env_def alice_def alice_store_def alice_body_def unknown_email_body_def
      syntax_error_def unique_violation_def Let_def)

text \<open>
  C3, amended. A signup request whose body passes the signup schema, with a non-empty
  string as email and a truthy password, where the email belongs to a stored account:
  the response is status 500 with the text "Failed to create user", never status 200;
  the accounts of the store are unchanged; and the response is the one any request
  gets whose body cannot be parsed, whatever exception \<open>x\<close> the parser throws.
\<close>

theorem signup_duplicate_email:
  assumes "signupInput L b"
    and "get_prop b ''email'' = Inr (Some (JStr e))" and "e \<noteq> []"
    and "get_prop b ''password'' = Inr pw" and "truthy pw"
    and "find (\<lambda>a. user_email a = e) (users st) = Some a0"
  shows "fst (signup L env (Inr b) st) = \<lparr>status = 500, body = JStr ''Failed to create user''\<rparr>
       \<and> users (snd (signup L env (Inr b) st)) = users st
       \<and> fst (signup L env (Inr b) st) = fst (signup L env (Inl x) st)"
proof -
  obtain y where "prisma_user_create (opt_prop b ''name'') (Some (JStr e)) pw st =
      (Inl y, st\<lparr>calls := calls st @ [Create (opt_prop b ''name'') (Some (JStr e)) pw]\<rparr>)"
    using create_duplicate_throws [OF assms(6)] by blast
  with assms(1-5) show ?thesis
    by (simp add: signup_def signup_try_def new_ctx_def c_status_def c_json_def)
qed

text \<open>The second signup of the same account.\<close>

theorem signup_duplicate_email_witness:
  "fst (signup test_lib test_env (Inr alice_body) alice_store) =
     \<lparr>status = 500, body = JStr ''Failed to create user''\<rparr>
   \<and> users (snd (signup test_lib test_env (Inr alice_body) alice_store)) = [alice]"
  using signup_duplicate_email
      [of test_lib alice_body "''a@x.com''" "Some (JStr ''hunter22'')" alice_store alice test_env
        syntax_error]
  by (simp add: signup_schema_def signin_schema_def well_formed_email_def test_lib_def alice_def alice_store_def alice_body_def)

subsection \<open>signup with a fresh email\<close>

text \<open>
  A signup request whose body passes the schema, with non-empty strings as email and
  password and a name the store accepts, on a reachable store without that email,
  with a signer that returns a non-empty token: one account is appended, with the
  identifier the store assigns, and the response is status 200 with the token. The
  field beside the token is spelled \<^verbatim>\<open>mesaage\<close>.
\<close>

lemma signup_fresh_email:
  assumes "signupInput L b"
    and "get_prop b ''email'' = Inr (Some (JStr e))" and "e \<noteq> []"
    and "get_prop b ''password'' = Inr (Some (JStr p))" and "p \<noteq> []"
    and "name_arg (opt_prop b ''name'') = Some n"
    and "fault st = None"
    and "find (\<lambda>a. user_email a = e) (users st) = None"
    and "sign L (next_id st) (JWT_SECRET env) = Inr t" and "t \<noteq> []"
  shows "signup L env (Inr b) st =
     (\<lparr>status = 200,
       body = JObj [(''mesaage'', JStr ''User created Successfully''), (''token'', JStr t)]\<rparr>,
      st\<lparr>calls := calls st @ [Create (opt_prop b ''name'') (Some (JStr e)) (Some (JStr p))],
         users := users st @ [\<lparr>user_id = next_id st, user_name = n, user_email = e,
                                user_password = p\<rparr>],
         next_id := Suc (next_id st)\<rparr>)"
  using assms
  by (simp add: signup_def signup_try_def prisma_user_create_def new_ctx_def c_status_def
      c_json_def Let_def)

text \<open>
  C4. The signup of \<^verbatim>\<open>{email: "a@x.com", password: "hunter22"}\<close> on the empty store creates
  one account and answers status 200 with a non-empty token, but the body has no
  field \<^verbatim>\<open>message\<close>: the key is \<^verbatim>\<open>mesaage\<close>. The success body of signin has the field.
\<close>

theorem signup_success_has_no_message_field:
  "signup test_lib test_env (Inr alice_body) empty_store =
     (\<lparr>status = 200,
       body = JObj [(''mesaage'', JStr ''User created Successfully''), (''token'', JStr ''k.1'')]\<rparr>,
      after_alice)
   \<and> get_prop (body (fst (signup test_lib test_env (Inr alice_body) empty_store))) ''message''
       = Inr None
   \<and> get_prop (body (fst (signin test_lib test_env (Inr alice_body) alice_store))) ''message''
       = Inr (Some (JStr ''User logged in successfully''))"
  by (simp add: signup_def signup_try_def signin_def signin_try_def new_ctx_def c_status_def
      c_json_def prisma_user_create_def prisma_user_findUnique_def signup_schema_def signin_schema_def well_formed_email_def
      test_sign_def test_lib_def test_env_def empty_store_def alice_def alice_store_def
      alice_body_def after_alice_def Let_def)

subsection \<open>signup when the token cannot be issued\<close>

text \<open>
  C5, as stated, fails: without a signing secret the signer throws after the account
  has been created, and the response is the very response of a signup whose account
  creation fails (here on a stored email).
\<close>

theorem signing_throws_looks_like_creation_failure:
  "users (snd (signup test_lib no_secret_env (Inr alice_body) empty_store)) = [alice]
   \<and> sign test_lib (user_id alice) (JWT_SECRET no_secret_env) =
       Inl (Exn ''JwtTokenInvalid'' ''secret is undefined'')
   \<and> fst (signup test_lib no_secret_env (Inr alice_body) empty_store) =
       fst (signup test_lib test_env (Inr alice_body) alice_store)"
  by (simp add: signup_def signup_try_def new_ctx_def c_status_def c_json_def
      prisma_user_create_def signup_schema_def signin_schema_def well_formed_email_def test_sign_def test_lib_def test_env_def
      no_secret_env_def empty_store_def alice_def alice_store_def alice_body_def
      unique_violation_def Let_def)

text \<open>
  C5, amended. A signup request that reaches the store and whose account \<open>u\<close> is
  created: when the signer returns the empty token, the response is status 500 with
  the text "Failed to create token", which differs from the response to a failed
  creation; when the signer throws, the response is status 500 with the text "Failed
  to create user", the response to every exception. Neither is a success outcome,
  and the store keeps the account in both cases.
\<close>

theorem signup_token_failure:
  assumes "signupInput L b"
    and "get_prop b ''email'' = Inr em" and "truthy em"
    and "get_prop b ''password'' = Inr pw" and "truthy pw"
    and "prisma_user_create (opt_prop b ''name'') em pw st = (Inr u, st')"
  shows "(sign L (user_id u) (JWT_SECRET env) = Inr [] \<longrightarrow>
            signup L env (Inr b) st =
              (\<lparr>status = 500, body = JStr ''Failed to create token''\<rparr>, st')
            \<and> fst (signup L env (Inr b) st) \<noteq>
                \<lparr>status = 500, body = JStr ''Failed to create user''\<rparr>)
       \<and> (sign L (user_id u) (JWT_SECRET env) = Inl x \<longrightarrow>
            signup L env (Inr b) st =
              (\<lparr>status = 500, body = JStr ''Failed to create user''\<rparr>, st'))"
  using assms
  by (simp add: signup_def signup_try_def new_ctx_def c_status_def c_json_def)

text \<open>
  A stand-in for the signer that returns the empty token, which is what the test
  \<^verbatim>\<open>!token\<close> of lines 40 to 43 looks for, and the test signer without its secret.
\<close>

theorem signup_token_failure_witness:
  "fst (signup (test_lib\<lparr>sign := \<lambda>i s. Inr []\<rparr>) test_env (Inr alice_body) empty_store) =
     \<lparr>status = 500, body = JStr ''Failed to create token''\<rparr>
   \<and> fst (signup test_lib no_secret_env (Inr alice_body) empty_store) =
     \<lparr>status = 500, body = JStr ''Failed to create user''\<rparr>"
proof -
  have em: "get_prop alice_body ''email'' = Inr (Some (JStr ''a@x.com''))"
    and pw: "get_prop alice_body ''password'' = Inr (Some (JStr ''hunter22''))"
    by (simp_all add: alice_body_def)
  have ok1: "signupInput (test_lib\<lparr>sign := \<lambda>i s. Inr []\<rparr>) alice_body"
    and ok2: "signupInput test_lib alice_body"
    by (simp_all add: test_lib_def signup_schema_def signin_schema_def well_formed_email_def
        alice_body_def)
  have t1: "sign (test_lib\<lparr>sign := \<lambda>i s. Inr []\<rparr>) (user_id alice) (JWT_SECRET test_env) = Inr []"
    by simp
  have t2: "sign test_lib (user_id alice) (JWT_SECRET no_secret_env) =
      Inl (Exn ''JwtTokenInvalid'' ''secret is undefined'')"
    by (simp add: test_lib_def test_sign_def no_secret_env_def)
  from signup_token_failure [OF ok1 em _ pw _ create_alice, of test_env "Exn [] []"] t1
    signup_token_failure [OF ok2 em _ pw _ create_alice, of no_secret_env
      "Exn ''JwtTokenInvalid'' ''secret is undefined''"] t2
  show ?thesis by simp
qed

subsection \<open>The token of signin and of signup\<close>





subsection \<open>The presence check of signup\<close>





subsection \<open>Exceptions\<close>

lemma signup_catch:
  "fst (signup_try L env new_ctx req st) = Inl e \<Longrightarrow>
   fst (signup L env req st) = \<lparr>status = 500, body = JStr ''Failed to create user''\<rparr>"
  by (cases "signup_try L env new_ctx req st")
     (simp add: signup_def new_ctx_def c_status_def c_json_def)

lemma signin_catch:
  "fst (signin_try L env new_ctx req st) = Inl e \<Longrightarrow>
   fst (signin L env req st) = \<lparr>status = 500, body = JStr ''Failed to login''\<rparr>"
  by (cases "signin_try L env new_ctx req st")
     (simp add: signin_def new_ctx_def c_status_def c_json_def)

lemma signup_try_store_throws:
  assumes "signupInput L b" and "get_prop b ''email'' = Inr em" and "truthy em"
    and "get_prop b ''password'' = Inr pw" and "truthy pw"
    and "fst (prisma_user_create (opt_prop b ''name'') em pw st) = Inl x"
  shows "fst (signup_try L env c (Inr b) st) = Inl x"
  using assms
  by (cases "prisma_user_create (opt_prop b ''name'') em pw st") (simp add: signup_try_def)

lemma signup_try_sign_throws:
  assumes "signupInput L b" and "get_prop b ''email'' = Inr em" and "truthy em"
    and "get_prop b ''password'' = Inr pw" and "truthy pw"
    and "prisma_user_create (opt_prop b ''name'') em pw st = (Inr u, st')"
    and "sign L (user_id u) (JWT_SECRET env) = Inl x"
  shows "fst (signup_try L env c (Inr b) st) = Inl x"
  using assms by (simp add: signup_try_def)

lemma signin_try_store_throws:
  assumes "signinInput L b" and "get_prop b ''email'' = Inr em"
    and "get_prop b ''password'' = Inr pw"
    and "fst (prisma_user_findUnique em pw st) = Inl x"
  shows "fst (signin_try L env c (Inr b) st) = Inl x"
  using assms
  by (cases "prisma_user_findUnique em pw st") (simp add: signin_try_def)

lemma signin_try_sign_throws:
  assumes "signinInput L b" and "get_prop b ''email'' = Inr em"
    and "get_prop b ''password'' = Inr pw"
    and "prisma_user_findUnique em pw st = (Inr (Some u), st')"
    and "sign L (user_id u) (JWT_SECRET env) = Inl x"
  shows "fst (signin_try L env c (Inr b) st) = Inl x"
  using assms by (simp add: signin_try_def)

text \<open>A store that cannot be reached throws on both calls.\<close>

lemma create_unreachable:
  "fault st = Some e \<Longrightarrow> \<exists>x. fst (prisma_user_create nm em pw st) = Inl x"
  by (auto simp: prisma_user_create_def Let_def split: option.splits json.splits)

lemma findUnique_unreachable:
  "fault st = Some e \<Longrightarrow> \<exists>x. fst (prisma_user_findUnique em pw st) = Inl x"
  by (auto simp: prisma_user_findUnique_def Let_def split: option.splits json.splits)

text \<open>
  C8. Whatever exception \<open>e\<close> leaves the \<^verbatim>\<open>try\<close> block of signup, the response is
  status 500 with the text "Failed to create user"; for signin it is status 500 with
  the text "Failed to login". Both are constants: nothing of \<open>e\<close>, neither its class
  nor its message, is in the response. In particular this is the response when the
  body cannot be parsed (third and fourth conjunct), when the call on the store
  throws, and when the account is created or found and the signer throws (the last
  two conjuncts).
\<close>

theorem exceptions_become_generic_500:
  "(fst (signup_try L env new_ctx req st) = Inl e \<longrightarrow>
      fst (signup L env req st) = \<lparr>status = 500, body = JStr ''Failed to create user''\<rparr>)
   \<and> (fst (signin_try L env new_ctx req st) = Inl e \<longrightarrow>
      fst (signin L env req st) = \<lparr>status = 500, body = JStr ''Failed to login''\<rparr>)
   \<and> fst (signup L env (Inl e) st) = \<lparr>status = 500, body = JStr ''Failed to create user''\<rparr>
   \<and> fst (signin L env (Inl e) st) = \<lparr>status = 500, body = JStr ''Failed to login''\<rparr>
   \<and> (signupInput L b \<and> get_prop b ''email'' = Inr em \<and> truthy em
        \<and> get_prop b ''password'' = Inr pw \<and> truthy pw
        \<and> (fst (prisma_user_create (opt_prop b ''name'') em pw st) = Inl e
           \<or> (prisma_user_create (opt_prop b ''name'') em pw st = (Inr u, st')
               \<and> sign L (user_id u) (JWT_SECRET env) = Inl e))
      \<longrightarrow> fst (signup L env (Inr b) st) =
            \<lparr>status = 500, body = JStr ''Failed to create user''\<rparr>)
   \<and> (signinInput L b \<and> get_prop b ''email'' = Inr em \<and> get_prop b ''password'' = Inr pw
        \<and> (fst (prisma_user_findUnique em pw st) = Inl e
           \<or> (prisma_user_findUnique em pw st = (Inr (Some u), st')
               \<and> sign L (user_id u) (JWT_SECRET env) = Inl e))
      \<longrightarrow> fst (signin L env (Inr b) st) = \<lparr>status = 500, body = JStr ''Failed to login''\<rparr>)"
proof (intro conjI impI)
  show "fst (signup L env (Inl e) st) = \<lparr>status = 500, body = JStr ''Failed to create user''\<rparr>"
    by (rule signup_catch [of _ _ _ _ e]) (simp add: signup_try_def)
  show "fst (signin L env (Inl e) st) = \<lparr>status = 500, body = JStr ''Failed to login''\<rparr>"
    by (rule signin_catch [of _ _ _ _ e]) (simp add: signin_try_def)
next
  assume "fst (signup_try L env new_ctx req st) = Inl e"
  then show "fst (signup L env req st) = \<lparr>status = 500, body = JStr ''Failed to create user''\<rparr>"
    by (rule signup_catch)
next
  assume "fst (signin_try L env new_ctx req st) = Inl e"
  then show "fst (signin L env req st) = \<lparr>status = 500, body = JStr ''Failed to login''\<rparr>"
    by (rule signin_catch)
next
  assume "signupInput L b \<and> get_prop b ''email'' = Inr em \<and> truthy em
        \<and> get_prop b ''password'' = Inr pw \<and> truthy pw
        \<and> (fst (prisma_user_create (opt_prop b ''name'') em pw st) = Inl e
           \<or> (prisma_user_create (opt_prop b ''name'') em pw st = (Inr u, st')
               \<and> sign L (user_id u) (JWT_SECRET env) = Inl e))"
  then have "fst (signup_try L env new_ctx (Inr b) st) = Inl e"
    by (auto intro: signup_try_store_throws signup_try_sign_throws)
  then show "fst (signup L env (Inr b) st) =
      \<lparr>status = 500, body = JStr ''Failed to create user''\<rparr>"
    by (rule signup_catch)
next
  assume "signinInput L b \<and> get_prop b ''email'' = Inr em \<and> get_prop b ''password'' = Inr pw
        \<and> (fst (prisma_user_findUnique em pw st) = Inl e
           \<or> (prisma_user_findUnique em pw st = (Inr (Some u), st')
               \<and> sign L (user_id u) (JWT_SECRET env) = Inl e))"
  then have "fst (signin_try L env new_ctx (Inr b) st) = Inl e"
    by (auto intro: signin_try_store_throws signin_try_sign_throws)
  then show "fst (signin L env (Inr b) st) = \<lparr>status = 500, body = JStr ''Failed to login''\<rparr>"
    by (rule signin_catch)
qed

text \<open>
  A body that cannot be parsed, a store that cannot be reached and a signer without
  its secret, on both routes.
\<close>

theorem exceptions_become_generic_500_witness:
  "fst (signup test_lib test_env (Inl syntax_error) alice_store) =
     \<lparr>status = 500, body = JStr ''Failed to create user''\<rparr>
   \<and> fst (signin test_lib test_env (Inl syntax_error) alice_store) =
     \<lparr>status = 500, body = JStr ''Failed to login''\<rparr>
   \<and> fst (signup test_lib test_env (Inr unknown_email_body) down_store) =
     \<lparr>status = 500, body = JStr ''Failed to create user''\<rparr>
   \<and> fst (signin test_lib test_env (Inr alice_body) down_store) =
     \<lparr>status = 500, body = JStr ''Failed to login''\<rparr>
   \<and> fst (signup test_lib no_secret_env (Inr alice_body) empty_store) =
     \<lparr>status = 500, body = JStr ''Failed to create user''\<rparr>
   \<and> fst (signin test_lib no_secret_env (Inr alice_body) alice_store) =
     \<lparr>status = 500, body = JStr ''Failed to login''\<rparr>"
proof -
  have c1: "fst (prisma_user_create (opt_prop unknown_email_body ''name'')
      (Some (JStr ''b@x.com'')) (Some (JStr ''hunter22'')) down_store) = Inl unreachable"
    by (simp add: prisma_user_create_def down_store_def alice_store_def unknown_email_body_def)
  have c2: "fst (prisma_user_findUnique (Some (JStr ''a@x.com'')) (Some (JStr ''hunter22''))
      down_store) = Inl unreachable"
    by (simp add: prisma_user_findUnique_def down_store_def alice_store_def)
  have c3: "prisma_user_findUnique (Some (JStr ''a@x.com'')) (Some (JStr ''hunter22'')) alice_store =
      (Inr (Some alice), alice_store\<lparr>calls := [FindUnique (Some (JStr ''a@x.com''))
         (Some (JStr ''hunter22''))]\<rparr>)"
    by (simp add: prisma_user_findUnique_def alice_store_def alice_def)
  have t: "sign test_lib (user_id alice) (JWT_SECRET no_secret_env) =
      Inl (Exn ''JwtTokenInvalid'' ''secret is undefined'')"
    by (simp add: test_lib_def test_sign_def no_secret_env_def)
  have ok: "signupInput test_lib alice_body" "signinInput test_lib alice_body"
    "signupInput test_lib unknown_email_body"
    "get_prop alice_body ''email'' = Inr (Some (JStr ''a@x.com''))"
    "get_prop alice_body ''password'' = Inr (Some (JStr ''hunter22''))"
    "get_prop unknown_email_body ''email'' = Inr (Some (JStr ''b@x.com''))"
    "get_prop unknown_email_body ''password'' = Inr (Some (JStr ''hunter22''))"
    by (simp_all add: test_lib_def signup_schema_def signin_schema_def well_formed_email_def alice_body_def unknown_email_body_def)
  from exceptions_become_generic_500
      [of test_lib test_env "Inl syntax_error" alice_store syntax_error]
    exceptions_become_generic_500
      [of test_lib test_env _ down_store unreachable unknown_email_body
        "Some (JStr ''b@x.com'')" "Some (JStr ''hunter22'')"]
    exceptions_become_generic_500
      [of test_lib test_env _ down_store unreachable alice_body
        "Some (JStr ''a@x.com'')" "Some (JStr ''hunter22'')"]
    exceptions_become_generic_500
      [of test_lib no_secret_env _ empty_store "Exn ''JwtTokenInvalid'' ''secret is undefined''"
        alice_body "Some (JStr ''a@x.com'')" "Some (JStr ''hunter22'')" alice after_alice]
    exceptions_become_generic_500
      [of test_lib no_secret_env _ alice_store "Exn ''JwtTokenInvalid'' ''secret is undefined''"
        alice_body "Some (JStr ''a@x.com'')" "Some (JStr ''hunter22'')" alice
        "alice_store\<lparr>calls := [FindUnique (Some (JStr ''a@x.com'')) (Some (JStr ''hunter22''))]\<rparr>"]
  show ?thesis
    using c1 c2 c3 t ok create_alice by simp
qed

subsection \<open>The shape of the responses\<close>

text \<open>
  C9, as stated, fails: the body of the 411 response of signup and the body of the 404
  response of signin are plain JSON strings; they have no field \<^verbatim>\<open>message\<close>.
\<close>

theorem failure_body_is_plain_string:
  "body (fst (signup test_lib test_env (Inr no_password_body) empty_store)) = JStr ''Invalid input''
   \<and> get_prop (body (fst (signup test_lib test_env (Inr no_password_body) empty_store)))
        ''message'' = Inr None
   \<and> body (fst (signin test_lib test_env (Inr wrong_password_body) alice_store)) =
        JStr ''User not found''
   \<and> get_prop (body (fst (signin test_lib test_env (Inr wrong_password_body) alice_store)))
        ''message'' = Inr None"
  by (simp add: signup_def signup_try_def signin_def signin_try_def new_ctx_def c_status_def
      c_json_def prisma_user_findUnique_def signup_schema_def signin_schema_def well_formed_email_def test_lib_def alice_def
      alice_store_def wrong_password_body_def no_password_body_def Let_def)

lemma signup_try_shapes:
  "signup_try L env new_ctx req st = (Inr r, st') \<Longrightarrow>
     status r \<noteq> 200 \<Longrightarrow> (status r = 411 \<or> status r = 500) \<and> plain_message (body r)"
  by (auto simp: signup_try_def new_ctx_def c_status_def c_json_def plain_message_def
      split: sum.splits if_splits prod.splits)

lemma signin_try_shapes:
  "signin_try L env new_ctx req st = (Inr r, st') \<Longrightarrow>
     (status r \<noteq> 200 \<longrightarrow> (status r = 411 \<or> status r = 404) \<and> plain_message (body r))
   \<and> (status r = 200 \<longrightarrow>
        get_prop (body r) ''message'' = Inr (Some (JStr ''User logged in successfully''))
        \<and> (\<exists>t. get_prop (body r) ''token'' = Inr (Some (JStr t))))"
  by (auto simp: signin_try_def new_ctx_def c_status_def c_json_def plain_message_def
      split: sum.splits if_splits prod.splits option.splits)

text \<open>
  C9, amended. Every response of signup and signin is a JSON value with a status.
  When the status is not 200 it is 411 or 500 (or 404, on signin) and the body is a
  plain JSON string, the message itself. A signin response with status 200 is an
  object with the field \<^verbatim>\<open>message\<close>, a string, and the field \<^verbatim>\<open>token\<close>.
\<close>

theorem response_shapes:
  "(status (fst (signup L env req st)) \<noteq> 200 \<longrightarrow>
      (status (fst (signup L env req st)) = 411 \<or> status (fst (signup L env req st)) = 500)
      \<and> plain_message (body (fst (signup L env req st))))
   \<and> (status (fst (signin L env req st)) \<noteq> 200 \<longrightarrow>
      (status (fst (signin L env req st)) = 411 \<or> status (fst (signin L env req st)) = 404
       \<or> status (fst (signin L env req st)) = 500)
      \<and> plain_message (body (fst (signin L env req st))))
   \<and> (status (fst (signin L env req st)) = 200 \<longrightarrow>
      get_prop (body (fst (signin L env req st))) ''message''
        = Inr (Some (JStr ''User logged in successfully''))
      \<and> (\<exists>t. get_prop (body (fst (signin L env req st))) ''token'' = Inr (Some (JStr t))))"
proof -
  obtain x st1 where up: "signup_try L env new_ctx req st = (x, st1)"
    by (cases "signup_try L env new_ctx req st")
  obtain y st2 where inn: "signin_try L env new_ctx req st = (y, st2)"
    by (cases "signin_try L env new_ctx req st")
  have a: "status (fst (signup L env req st)) \<noteq> 200 \<longrightarrow>
      (status (fst (signup L env req st)) = 411 \<or> status (fst (signup L env req st)) = 500)
      \<and> plain_message (body (fst (signup L env req st)))"
  proof (cases x)
    case (Inl e)
    with up show ?thesis
      by (simp add: signup_def new_ctx_def c_status_def c_json_def plain_message_def)
  next
    case (Inr r)
    with up signup_try_shapes [of L env req st r st1] show ?thesis
      by (simp add: signup_def)
  qed
  have b: "(status (fst (signin L env req st)) \<noteq> 200 \<longrightarrow>
      (status (fst (signin L env req st)) = 411 \<or> status (fst (signin L env req st)) = 404
       \<or> status (fst (signin L env req st)) = 500)
      \<and> plain_message (body (fst (signin L env req st))))
   \<and> (status (fst (signin L env req st)) = 200 \<longrightarrow>
      get_prop (body (fst (signin L env req st))) ''message''
        = Inr (Some (JStr ''User logged in successfully''))
      \<and> (\<exists>t. get_prop (body (fst (signin L env req st))) ''token'' = Inr (Some (JStr t))))"
  proof (cases y)
    case (Inl e)
    with inn show ?thesis
      by (simp add: signin_def new_ctx_def c_status_def c_json_def plain_message_def)
  next
    case (Inr r)
    with inn signin_try_shapes [of L env req st r st2] show ?thesis
      by (auto simp add: signin_def)
  qed
  from a b show ?thesis by blast
qed

text \<open>A rejected body on signup, a wrong password and the right one on signin.\<close>

theorem response_shapes_witness:
  "status (fst (signup test_lib test_env (Inr no_password_body) empty_store)) = 411
   \<and> plain_message (body (fst (signup test_lib test_env (Inr no_password_body) empty_store)))
   \<and> status (fst (signin test_lib test_env (Inr wrong_password_body) alice_store)) = 404
   \<and> plain_message (body (fst (signin test_lib test_env (Inr wrong_password_body) alice_store)))
   \<and> status (fst (signin test_lib test_env (Inr alice_body) alice_store)) = 200
   \<and> get_prop (body (fst (signin test_lib test_env (Inr alice_body) alice_store))) ''message''
        = Inr (Some (JStr ''User logged in successfully''))"
  using response_shapes [of test_lib test_env "Inr no_password_body" empty_store]
    response_shapes [of test_lib test_env "Inr wrong_password_body" alice_store]
    response_shapes [of test_lib test_env "Inr alice_body" alice_store]
  by (simp add: signup_def signup_try_def signin_def signin_try_def new_ctx_def c_status_def
      c_json_def prisma_user_findUnique_def signup_schema_def signin_schema_def well_formed_email_def test_sign_def test_lib_def
      test_env_def alice_def alice_store_def alice_body_def wrong_password_body_def
      no_password_body_def Let_def)

subsection \<open>The token of a signup names the new account\<close>

lemma signup_try_token:
  "signup_try L env c req st = (Inr r, st') \<Longrightarrow>
   get_prop (body r) ''token'' = Inr (Some (JStr t)) \<Longrightarrow>
   \<exists>u. users st' = users st @ [u] \<and> sign L (user_id u) (JWT_SECRET env) = Inr t
      \<and> status r = ctx_status c"
  by (auto simp: signup_try_def c_status_def c_json_def
      split: sum.splits if_splits prod.splits dest: create_appends)

lemma test_round_trip: "test_sign i s = Inr t \<Longrightarrow> test_verify t s = Some i"
  by (auto simp: test_sign_def test_verify_def split: option.splits)

text \<open>
  C10. Let \<open>verify\<close> be a decoder that recovers the identifier from every token the
  signer issues under the secret of the deployment. When the response of a signup
  carries the token \<open>t\<close>, the status is 200, the store has exactly one account more,
  the last one, and decoding \<open>t\<close> with the same secret yields the identifier of that
  account. The handler passes the identifier of the account it has just created and
  the secret to the signer and returns the token unchanged; that signing followed by
  decoding is the identity is the law of the JWT library, taken as the hypothesis.
\<close>

theorem signup_token_round_trip:
  assumes law: "\<And>i t. sign L i (JWT_SECRET env) = Inr t \<Longrightarrow> verify t (JWT_SECRET env) = Some i"
    and tok: "get_prop (body (fst (signup L env req st))) ''token'' = Inr (Some (JStr t))"
  shows "status (fst (signup L env req st)) = 200
       \<and> users (snd (signup L env req st)) = users st @ [last (users (snd (signup L env req st)))]
       \<and> verify t (JWT_SECRET env) = Some (user_id (last (users (snd (signup L env req st)))))"
proof -
  obtain x st1 where up: "signup_try L env new_ctx req st = (x, st1)"
    by (cases "signup_try L env new_ctx req st")
  show ?thesis
  proof (cases x)
    case (Inl e)
    with up tok show ?thesis
      by (simp add: signup_def new_ctx_def c_status_def c_json_def)
  next
    case (Inr r)
    with up tok have "get_prop (body r) ''token'' = Inr (Some (JStr t))"
      and s: "signup L env req st = (r, st1)"
      by (simp_all add: signup_def)
    with up Inr obtain u where "users st1 = users st @ [u]"
      and "sign L (user_id u) (JWT_SECRET env) = Inr t"
      and "status r = ctx_status new_ctx"
      using signup_try_token by blast
    with s law show ?thesis by (simp add: new_ctx_def)
  qed
qed

text \<open>The first signup on the empty store, with the test signer and its decoder.\<close>

theorem signup_token_round_trip_witness:
  "get_prop (body (fst (signup test_lib test_env (Inr alice_body) empty_store))) ''token''
     = Inr (Some (JStr ''k.1''))
   \<and> users (snd (signup test_lib test_env (Inr alice_body) empty_store)) = [alice]
   \<and> test_verify ''k.1'' (JWT_SECRET test_env) = Some (user_id alice)"
proof -
  have law: "\<And>i t. sign test_lib i (JWT_SECRET test_env) = Inr t
      \<Longrightarrow> test_verify t (JWT_SECRET test_env) = Some i"
    by (simp add: test_lib_def test_round_trip)
  have run: "signup test_lib test_env (Inr alice_body) empty_store =
     (\<lparr>status = 200,
       body = JObj [(''mesaage'', JStr ''User created Successfully''), (''token'', JStr ''k.1'')]\<rparr>,
      after_alice)"
    by (simp add: signup_def signup_try_def new_ctx_def c_status_def c_json_def
        prisma_user_create_def signup_schema_def signin_schema_def well_formed_email_def test_sign_def test_lib_def test_env_def
        empty_store_def alice_def alice_body_def after_alice_def Let_def)
  then have tok:
    "get_prop (body (fst (signup test_lib test_env (Inr alice_body) empty_store))) ''token''
       = Inr (Some (JStr ''k.1''))"
    by simp
  from signup_token_round_trip [where verify = test_verify, OF law tok]
  show ?thesis using tok run by (simp add: after_alice_def)
qed

end
